theory Spec2Isabelle
  imports Complex_Main "HOL-Library.Sublist"
begin

section \<open>JavaScript values\<close>

text \<open>
  The module \<^verbatim>\<open>src/utils/api.js\<close> works on dynamically typed values: response bodies,
  request payloads and option objects. A JavaScript number is a finite value or one of
  the three special values; the module never computes with the numbers that the theorems
  below are about, it only tests them for truthiness and passes them on, so a finite
  number is kept as a rational (both zeros are the one value \<open>Finite 0\<close>). An object is
  its list of properties; reading a property takes the first entry of that name.
\<close>

datatype jsnum = Finite rat | NaN | PosInfinity | NegInfinity

datatype jsval =
    JUndefined
  | JNull
  | JBool bool
  | JNum jsnum
  | JStr string
  | JArr "jsval list"
  | JObj "(string \<times> jsval) list"

text \<open>Truthiness, as \<^verbatim>\<open>if (v)\<close> and \<^verbatim>\<open>v || d\<close> test it.\<close>

fun truthy :: "jsval \<Rightarrow> bool" where
  "truthy JUndefined = False"
| "truthy JNull = False"
| "truthy (JBool b) = b"
| "truthy (JNum (Finite q)) = (q \<noteq> 0)"
| "truthy (JNum NaN) = False"
| "truthy (JNum PosInfinity) = True"
| "truthy (JNum NegInfinity) = True"
| "truthy (JStr s) = (s \<noteq> [])"
| "truthy (JArr xs) = True"
| "truthy (JObj ps) = True"

text \<open>The operator \<^verbatim>\<open>a || b\<close>.\<close>

definition js_or :: "jsval \<Rightarrow> jsval \<Rightarrow> jsval" where
  "js_or a b = (if truthy a then a else b)"

text \<open>
  The optional property read \<^verbatim>\<open>v?.name\<close>: \<^verbatim>\<open>undefined\<close> on \<^verbatim>\<open>undefined\<close> and
  \<^verbatim>\<open>null\<close>, the property of an object, and \<^verbatim>\<open>undefined\<close> for a name that a
  primitive or an array of parsed JSON does not have.
\<close>

fun opt_prop :: "jsval \<Rightarrow> string \<Rightarrow> jsval" where
  "opt_prop (JObj ps) name = (case map_of ps name of None \<Rightarrow> JUndefined | Some v \<Rightarrow> v)"
| "opt_prop v name = JUndefined"

text \<open>\<^verbatim>\<open>Array.prototype.join\<close> on an array of strings.\<close>

fun join :: "string \<Rightarrow> string list \<Rightarrow> string" where
  "join sep [] = []"
| "join sep [x] = x"
| "join sep (x # y # ys) = x @ sep @ join sep (y # ys)"

text \<open>\<^verbatim>\<open>String.prototype.includes\<close>: the needle occurs at some position of the text.\<close>

fun starts_with :: "string \<Rightarrow> string \<Rightarrow> bool" where
  "starts_with s [] = True"
| "starts_with [] (c # cs) = False"
| "starts_with (d # ds) (c # cs) = (d = c \<and> starts_with ds cs)"

fun str_includes :: "string \<Rightarrow> string \<Rightarrow> bool" where
  "str_includes [] needle = (needle = [])"
| "str_includes (c # cs) needle = (starts_with (c # cs) needle \<or> str_includes cs needle)"

section \<open>Errors and responses of the client\<close>

text \<open>
  A response as the HTTP client hands it over, and an error as the module inspects it:
  \<^verbatim>\<open>error.code\<close>, \<^verbatim>\<open>error.message\<close> and \<^verbatim>\<open>error.response\<close>. A field that is
  \<^verbatim>\<open>undefined\<close> is \<open>None\<close>. An outbound call either fails with an error (\<open>Inl\<close>)
  or yields a response (\<open>Inr\<close>).
\<close>

record axios_response =
  status :: int
  data :: jsval

record js_error =
  code :: "string option"
  message :: string
  response :: "axios_response option"

text \<open>\<^verbatim>\<open>new Error(msg)\<close>: a plain error with a message, no code and no response.\<close>

definition new_Error :: "string \<Rightarrow> js_error" where
  "new_Error msg = \<lparr>code = None, message = msg, response = None\<rparr>"

text \<open>\<^verbatim>\<open>error.response?.status\<close>.\<close>

definition response_status :: "js_error \<Rightarrow> int option" where
  "response_status e = map_option status (response e)"

text \<open>
  Two things are supplied by the JavaScript engine and are parameters here: the text of
  a number, and the \<^verbatim>\<open>TypeError\<close> that the engine throws when an object has no
  conversion to a primitive value (the wording of its message differs between engines).
\<close>

record js_engine =
  number_text :: "jsnum \<Rightarrow> string"
  conversion_TypeError :: js_error

text \<open>
  The results of a sequence of conversions made from left to right: the first one that
  throws ends the sequence.
\<close>

fun collect :: "(js_error + 'a) list \<Rightarrow> js_error + 'a list" where
  "collect [] = Inr []"
| "collect (Inl e # rs) = Inl e"
| "collect (Inr x # rs) = (case collect rs of Inl e \<Rightarrow> Inl e | Inr xs \<Rightarrow> Inr (x # xs))"

text \<open>
  The string conversion that \<^verbatim>\<open>new Error(v)\<close> applies to its argument; it yields the
  text (\<open>Inr\<close>) or throws (\<open>Inl\<close>). An object of parsed JSON has the method
  \<^verbatim>\<open>toString\<close> of \<^verbatim>\<open>Object.prototype\<close>, which gives \<^verbatim>\<open>[object Object]\<close>, unless it
  has a property of its own named \<^verbatim>\<open>toString\<close>: the value of such a property is not a
  function, and neither it nor \<^verbatim>\<open>valueOf\<close> then yields a primitive, so the conversion
  throws the \<^verbatim>\<open>TypeError\<close>. An array joins the conversions of its elements with a comma,
  \<^verbatim>\<open>null\<close> and \<^verbatim>\<open>undefined\<close> elements giving the empty string, and throws where the
  conversion of an element throws.
\<close>

fun ToString :: "js_engine \<Rightarrow> jsval \<Rightarrow> js_error + string" where
  "ToString eng JUndefined = Inr ''undefined''"
| "ToString eng JNull = Inr ''null''"
| "ToString eng (JBool b) = Inr (if b then ''true'' else ''false'')"
| "ToString eng (JNum n) = Inr (number_text eng n)"
| "ToString eng (JStr s) = Inr s"
| "ToString eng (JArr xs) =
     (case collect (map (\<lambda>v. if v = JUndefined \<or> v = JNull then Inr [] else ToString eng v) xs) of
        Inl e \<Rightarrow> Inl e
      | Inr parts \<Rightarrow> Inr (join '','' parts))"
| "ToString eng (JObj ps) =
     (case map_of ps ''toString'' of
        None \<Rightarrow> Inr ''[object Object]''
      | Some v \<Rightarrow> Inl (conversion_TypeError eng))"

section \<open>The shared client instance and its response interceptor\<close>

definition msg_cannot_connect :: string where
  "msg_cannot_connect =
     ''Cannot connect to server. Please check if the backend is running and CORS is configured.''"

definition msg_cors :: string where
  "msg_cors = ''CORS error. Backend is not accepting requests from this domain.''"

definition msg_timeout :: string where
  "msg_timeout = ''Request timed out. Please try with a smaller file or check your connection.''"

definition msg_server :: string where
  "msg_server = ''Server error. The backend service may be experiencing issues.''"

text \<open>
  The second handler of \<^verbatim>\<open>api.interceptors.response.use\<close>. It always rejects; the
  result is the error the caller of the instance receives. A comparison of an absent
  status with a number is false.
\<close>

definition response_rejected :: "js_error \<Rightarrow> js_error" where
  "response_rejected e =
     (if code e = Some ''ERR_NETWORK'' then new_Error msg_cannot_connect
      else if response_status e = Some 0 then new_Error msg_cors
      else if response_status e = Some 408 \<or> code e = Some ''ECONNABORTED''
        then new_Error msg_timeout
      else if (case response_status e of None \<Rightarrow> False | Some s \<Rightarrow> s \<ge> 500)
        then new_Error msg_server
      else e)"

text \<open>
  A call through the instance (\<^verbatim>\<open>api.post\<close>, \<^verbatim>\<open>api.get\<close>): the first handler returns a
  response as it is, the second one treats a failure of the transport.
\<close>

definition api_call :: "js_error + axios_response \<Rightarrow> js_error + axios_response" where
  "api_call outcome = (case outcome of Inl e \<Rightarrow> Inl (response_rejected e) | Inr r \<Rightarrow> Inr r)"

text \<open>
  What an operation hands to the HTTP client: the address (relative to the base address
  for the shared instance), the method and the payload. The transport is a function from
  the request to the outcome of the call.
\<close>

record client_request =
  cr_url :: string
  cr_method :: string
  cr_data :: jsval

type_synonym transport = "client_request \<Rightarrow> js_error + axios_response"

section \<open>The operations\<close>

subsection \<open>uploadVideo\<close>

definition BACKEND_URL_default :: string where
  "BACKEND_URL_default = ''https://backend-footage-flow.onrender.com''"

definition msg_upload_network :: string where
  "msg_upload_network = ''Network error. Cannot connect to server.''"

definition msg_upload_too_large :: string where
  "msg_upload_too_large = ''File too large. Please use a smaller video file.''"

text \<open>The \<^verbatim>\<open>catch\<close> block of \<^verbatim>\<open>uploadVideo\<close>: the error it throws for the error caught.\<close>

definition uploadVideo_catch :: "js_error \<Rightarrow> js_error" where
  "uploadVideo_catch e =
     (if code e = Some ''ERR_NETWORK'' then new_Error msg_upload_network
      else if response_status e = Some 413 then new_Error msg_upload_too_large
      else e)"

text \<open>
  \<^verbatim>\<open>uploadVideo\<close> posts with \<^verbatim>\<open>axios.post\<close>, the library's default instance, to the
  absolute address \<^verbatim>\<open>${BACKEND_URL}/upload\<close>: the interceptors of \<^verbatim>\<open>api\<close> are not on
  that path. It returns the whole response.
\<close>

definition uploadVideo :: "string \<Rightarrow> transport \<Rightarrow> jsval \<Rightarrow> js_error + axios_response" where
  "uploadVideo base axios_post formData =
     (case axios_post \<lparr>cr_url = base @ ''/upload'', cr_method = ''post'', cr_data = formData\<rparr> of
        Inl e \<Rightarrow> Inl (uploadVideo_catch e)
      | Inr r \<Rightarrow> Inr r)"

subsection \<open>transcribeVideo\<close>

definition msg_transcribe_timeout :: string where
  "msg_transcribe_timeout = ''Transcription timed out. Please try with a shorter video.''"

definition msg_transcribe_failed :: string where
  "msg_transcribe_failed = ''Transcription failed. Please try again.''"

text \<open>\<^verbatim>\<open>error.response?.data?.error\<close>.\<close>

definition response_data_error :: "js_error \<Rightarrow> jsval" where
  "response_data_error e =
     (case response e of None \<Rightarrow> JUndefined | Some r \<Rightarrow> opt_prop (data r) ''error'')"

text \<open>
  The \<^verbatim>\<open>catch\<close> block of \<^verbatim>\<open>transcribeVideo\<close>: the error it throws for the error
  caught. Where the conversion inside \<^verbatim>\<open>new Error(error.response.data.error)\<close> throws,
  that exception is the one that leaves the block.
\<close>

definition transcribeVideo_catch :: "js_engine \<Rightarrow> js_error \<Rightarrow> js_error" where
  "transcribeVideo_catch eng e =
     (if str_includes (message e) ''timeout'' then new_Error msg_transcribe_timeout
      else if truthy (response_data_error e)
        then (case ToString eng (response_data_error e) of
                Inl thrown \<Rightarrow> thrown
              | Inr text \<Rightarrow> new_Error text)
      else new_Error msg_transcribe_failed)"

definition transcribeVideo :: "js_engine \<Rightarrow> transport \<Rightarrow> jsval \<Rightarrow> js_error + jsval" where
  "transcribeVideo eng send videoId =
     (case api_call (send \<lparr>cr_url = ''/transcribe-direct-video'', cr_method = ''post'',
                          cr_data = JObj [(''videoId'', videoId)]\<rparr>) of
        Inl e \<Rightarrow> Inl (transcribeVideo_catch eng e)
      | Inr r \<Rightarrow> Inr (data r))"

subsection \<open>renderVideo\<close>

text \<open>
  The third argument is an object, or it is left out (\<open>None\<close>) and the default
  \<^verbatim>\<open>{}\<close> of the signature takes its place. The payload is the object literal passed to
  \<^verbatim>\<open>api.post\<close>.
\<close>

definition renderVideo_request ::
    "jsval \<Rightarrow> jsval \<Rightarrow> (string \<times> jsval) list option \<Rightarrow> client_request" where
  "renderVideo_request videoId scenes options =
     (let opts = (case options of None \<Rightarrow> [] | Some ps \<Rightarrow> ps)
      in \<lparr>cr_url = ''/render-story'', cr_method = ''post'',
          cr_data = JObj [(''videoId'', videoId), (''scenes'', scenes),
                          (''transitionDuration'',
                            js_or (opt_prop (JObj opts) ''transitionDuration'')
                                  (JNum (Finite (1 / 2))))]\<rparr>)"

definition renderVideo ::
    "transport \<Rightarrow> jsval \<Rightarrow> jsval \<Rightarrow> (string \<times> jsval) list option \<Rightarrow> js_error + jsval" where
  "renderVideo send videoId scenes options =
     (case api_call (send (renderVideo_request videoId scenes options)) of
        Inl e \<Rightarrow> Inl e
      | Inr r \<Rightarrow> Inr (data r))"

section \<open>The forwarding handler\<close>

text \<open>
  The wildcard parameter \<^verbatim>\<open>req.query.proxy\<close> is absent, one string, or an array of
  strings. The inbound request carries a method, headers and a parsed body.
\<close>

datatype proxy_param = Missing | Single string | Segments "string list"

record inbound_request =
  query_proxy :: proxy_param
  in_method :: string
  in_headers :: "(string \<times> string) list"
  in_body :: jsval

text \<open>
  The second argument of \<^verbatim>\<open>fetch\<close>. The property \<^verbatim>\<open>body\<close> is set only on one branch
  (\<open>None\<close>: not set).
\<close>

record fetch_options =
  fo_method :: string
  fo_headers :: "(string \<times> string) list"
  fo_body :: "jsval option"

text \<open>
  What \<^verbatim>\<open>fetch\<close> resolves to: the status and the outcome of \<^verbatim>\<open>response.json()\<close>, which
  throws when the body is not JSON. The runtime of the handler provides \<^verbatim>\<open>fetch\<close> and
  \<^verbatim>\<open>JSON.stringify\<close>; both are parameters. \<^verbatim>\<open>JSON.stringify\<close> gives a string, or
  \<^verbatim>\<open>undefined\<close> for a value with no JSON text.
\<close>

record fetch_response =
  fr_status :: int
  fr_json :: "js_error + jsval"

record runtime =
  JSON_stringify :: "jsval \<Rightarrow> jsval"
  fetch :: "string \<Rightarrow> fetch_options \<Rightarrow> js_error + fetch_response"

text \<open>What the handler writes with \<^verbatim>\<open>res.status(s).json(b)\<close>.\<close>

record http_reply =
  reply_status :: int
  reply_body :: jsval

definition backend_origin :: string where
  "backend_origin = ''http://footage-flow-env.eba-92jebm7b.ap-south-1.elasticbeanstalk.com''"

text \<open>
  \<^verbatim>\<open>Array.isArray(proxy) ? proxy.join('/') : proxy\<close>: a string, or \<^verbatim>\<open>undefined\<close>
  (\<open>None\<close>) when the parameter is absent.
\<close>

fun proxy_path :: "proxy_param \<Rightarrow> string option" where
  "proxy_path (Segments xs) = Some (join ''/'' xs)"
| "proxy_path (Single s) = Some s"
| "proxy_path Missing = None"

text \<open>
  The template literal that builds the address: \<^verbatim>\<open>${path}\<close> converts its value to a
  string, and the conversion of \<^verbatim>\<open>undefined\<close> is the text \<^verbatim>\<open>undefined\<close>.
\<close>

definition backendUrl :: "string option \<Rightarrow> string" where
  "backendUrl path =
     backend_origin @ ''/'' @ (case path of None \<Rightarrow> ''undefined'' | Some s \<Rightarrow> s)"

definition fetchOptions :: "runtime \<Rightarrow> inbound_request \<Rightarrow> fetch_options" where
  "fetchOptions rt req =
     (let opts = \<lparr>fo_method = in_method req,
                  fo_headers = [(''Content-Type'', ''application/json'')],
                  fo_body = None\<rparr>
      in if in_method req \<noteq> ''GET'' \<and> in_method req \<noteq> ''HEAD''
         then opts\<lparr>fo_body := Some (JSON_stringify rt (in_body req))\<rparr>
         else opts)"

text \<open>
  The \<^verbatim>\<open>try\<close> block: the outbound calls it makes, and either the exception thrown
  inside it (\<open>Inl\<close>) or the reply written.
\<close>

definition handler_try ::
    "runtime \<Rightarrow> inbound_request \<Rightarrow> string option
       \<Rightarrow> (string \<times> fetch_options) list \<times> (js_error + http_reply)" where
  "handler_try rt req path =
     (let url = backendUrl path;
          opts = fetchOptions rt req
      in ([(url, opts)],
          case fetch rt url opts of
            Inl e \<Rightarrow> Inl e
          | Inr resp \<Rightarrow>
              (case fr_json resp of
                 Inl e \<Rightarrow> Inl e
               | Inr d \<Rightarrow> Inr \<lparr>reply_status = fr_status resp, reply_body = d\<rparr>)))"

definition handler_catch :: "js_error \<Rightarrow> http_reply" where
  "handler_catch e =
     \<lparr>reply_status = 500,
      reply_body = JObj [(''error'', JStr ''Backend connection failed''),
                         (''details'', JStr (message e))]\<rparr>"

text \<open>
  The handler: the outbound calls made, and the reply (\<open>Inr\<close>) or an exception that
  leaves the handler (\<open>Inl\<close>).
\<close>

definition handler ::
    "runtime \<Rightarrow> inbound_request \<Rightarrow> (string \<times> fetch_options) list \<times> (js_error + http_reply)" where
  "handler rt req =
     (let path = proxy_path (query_proxy req);
          (calls, r) = handler_try rt req path
      in (calls, case r of Inl e \<Rightarrow> Inr (handler_catch e) | Inr reply \<Rightarrow> Inr reply))"

section \<open>Auxiliary facts\<close>

lemma starts_with_prefix: "starts_with s t \<longleftrightarrow> prefix t s"
  by (induction s t rule: starts_with.induct) auto

lemma str_includes_sublist: "str_includes s t \<longleftrightarrow> sublist t s"
  by (induction s) (auto simp: starts_with_prefix sublist_Cons_right)

lemma new_Error_fields [simp]:
  "code (new_Error m) = None" "message (new_Error m) = m" "response (new_Error m) = None"
  by (simp_all add: new_Error_def)

lemma response_data_error_new_Error [simp]: "response_data_error (new_Error m) = JUndefined"
  by (simp add: response_data_error_def)

text \<open>None of the four messages of the interceptor contains the text \<^verbatim>\<open>timeout\<close>.\<close>

lemma interceptor_messages_no_timeout:
  "\<not> str_includes msg_cannot_connect ''timeout''"
  "\<not> str_includes msg_cors ''timeout''"
  "\<not> str_includes msg_timeout ''timeout''"
  "\<not> str_includes msg_server ''timeout''"
  by (simp_all add: msg_cannot_connect_def msg_cors_def msg_timeout_def msg_server_def)

lemma transcribe_after_remap:
  "m \<in> {msg_cannot_connect, msg_cors, msg_timeout, msg_server} \<Longrightarrow>
   transcribeVideo_catch eng (new_Error m) = new_Error msg_transcribe_failed"
  using interceptor_messages_no_timeout by (auto simp: transcribeVideo_catch_def)

text \<open>
  An object with a property of its own named \<^verbatim>\<open>toString\<close> has no string conversion,
  nor has an array that holds one; where the conversion throws in the \<^verbatim>\<open>catch\<close> block
  of \<^verbatim>\<open>transcribeVideo\<close>, its exception is what the block throws.
\<close>

lemma ToString_own_toString:
  "map_of ps ''toString'' = Some v \<Longrightarrow> ToString eng (JObj ps) = Inl (conversion_TypeError eng)"
  by simp

lemma ToString_array_own_toString:
  "ToString eng (JArr [JStr ''a'', JObj [(''toString'', JNum (Finite 1))], JStr ''b''])
     = Inl (conversion_TypeError eng)"
  by simp

lemma ToString_array_text:
  "ToString eng (JArr [JStr ''a'', JNull, JArr [JStr ''b'', JBool True], JObj []])
     = Inr ''a,,b,true,[object Object]''"
  by simp

lemma transcribeVideo_catch_conversion_throws:
  "\<not> str_includes (message e) ''timeout'' \<Longrightarrow> truthy (response_data_error e) \<Longrightarrow>
   ToString eng (response_data_error e) = Inl thrown \<Longrightarrow>
   transcribeVideo_catch eng e = thrown"
  by (simp add: transcribeVideo_catch_def)

text \<open>The handler makes one outbound call, and its reply is decided by that call.\<close>

lemma handler_calls:
  "fst (handler rt req)
     = [(backendUrl (proxy_path (query_proxy req)), fetchOptions rt req)]"
  by (simp add: handler_def handler_try_def Let_def)

lemma handler_reply:
  "snd (handler rt req)
     = (case fetch rt (backendUrl (proxy_path (query_proxy req))) (fetchOptions rt req) of
          Inl e \<Rightarrow> Inr (handler_catch e)
        | Inr resp \<Rightarrow>
            (case fr_json resp of
               Inl e \<Rightarrow> Inr (handler_catch e)
             | Inr d \<Rightarrow> Inr \<lparr>reply_status = fr_status resp, reply_body = d\<rparr>))"
  by (simp add: handler_def handler_try_def Let_def split: sum.splits)

section \<open>The response interceptor\<close>

text \<open>
  C1. A call through the shared instance that fails with the error \<open>e\<close> is rejected
  with the result of four rules tried in order: the code \<^verbatim>\<open>ERR_NETWORK\<close> gives the
  cannot-connect message; otherwise the status 0 gives the CORS message; otherwise the
  status 408 or the code \<^verbatim>\<open>ECONNABORTED\<close> gives the timeout message; otherwise a status
  of 500 or more gives the server-error message. Each rule is stated under the negation
  of the rules before it, so the first match wins. An error that matches none of them is
  rejected as it is, with its code, message, status and body.
\<close>

theorem interceptor_classification:
  "(code e = Some ''ERR_NETWORK'' \<longrightarrow>
      api_call (Inl e) = Inl (new_Error
        ''Cannot connect to server. Please check if the backend is running and CORS is configured.''))
   \<and> (code e \<noteq> Some ''ERR_NETWORK'' \<and> response_status e = Some 0 \<longrightarrow>
      api_call (Inl e) = Inl (new_Error
        ''CORS error. Backend is not accepting requests from this domain.''))
   \<and> (code e \<noteq> Some ''ERR_NETWORK'' \<and> response_status e \<noteq> Some 0
        \<and> (response_status e = Some 408 \<or> code e = Some ''ECONNABORTED'') \<longrightarrow>
      api_call (Inl e) = Inl (new_Error
        ''Request timed out. Please try with a smaller file or check your connection.''))
   \<and> (code e \<noteq> Some ''ERR_NETWORK'' \<and> code e \<noteq> Some ''ECONNABORTED''
        \<and> (\<exists>s. response_status e = Some s \<and> s \<ge> 500) \<longrightarrow>
      api_call (Inl e) = Inl (new_Error
        ''Server error. The backend service may be experiencing issues.''))
   \<and> (code e \<noteq> Some ''ERR_NETWORK'' \<and> code e \<noteq> Some ''ECONNABORTED''
        \<and> (\<forall>s. response_status e = Some s \<longrightarrow> s \<noteq> 0 \<and> s \<noteq> 408 \<and> s < 500) \<longrightarrow>
      api_call (Inl e) = Inl e)"
  unfolding api_call_def response_rejected_def msg_cannot_connect_def msg_cors_def
    msg_timeout_def msg_server_def
  by (cases "response_status e") auto

text \<open>
  One failure for each rule, and a 404 with a body, which passes through unchanged.
\<close>

theorem interceptor_classification_witness:
  "api_call (Inl \<lparr>code = Some ''ERR_NETWORK'', message = ''Network Error'', response = None\<rparr>)
     = Inl (new_Error
        ''Cannot connect to server. Please check if the backend is running and CORS is configured.'')
   \<and> api_call (Inl \<lparr>code = None, message = ''Request failed with status code 0'',
        response = Some \<lparr>status = 0, data = JStr []\<rparr>\<rparr>)
     = Inl (new_Error ''CORS error. Backend is not accepting requests from this domain.'')
   \<and> api_call (Inl \<lparr>code = Some ''ECONNABORTED'', message = ''timeout of 30000ms exceeded'',
        response = None\<rparr>)
     = Inl (new_Error
        ''Request timed out. Please try with a smaller file or check your connection.'')
   \<and> api_call (Inl \<lparr>code = Some ''ERR_BAD_RESPONSE'',
        message = ''Request failed with status code 503'',
        response = Some \<lparr>status = 503, data = JObj [(''error'', JStr ''down'')]\<rparr>\<rparr>)
     = Inl (new_Error ''Server error. The backend service may be experiencing issues.'')
   \<and> api_call (Inl \<lparr>code = Some ''ERR_BAD_REQUEST'',
        message = ''Request failed with status code 404'',
        response = Some \<lparr>status = 404, data = JObj [(''error'', JStr ''no such video'')]\<rparr>\<rparr>)
     = Inl \<lparr>code = Some ''ERR_BAD_REQUEST'',
        message = ''Request failed with status code 404'',
        response = Some \<lparr>status = 404, data = JObj [(''error'', JStr ''no such video'')]\<rparr>\<rparr>"
  using
    interceptor_classification [of "\<lparr>code = Some ''ERR_NETWORK'', message = ''Network Error'',
        response = None\<rparr>"]
    interceptor_classification [of "\<lparr>code = None, message = ''Request failed with status code 0'',
        response = Some \<lparr>status = 0, data = JStr []\<rparr>\<rparr>"]
    interceptor_classification [of "\<lparr>code = Some ''ECONNABORTED'',
        message = ''timeout of 30000ms exceeded'', response = None\<rparr>"]
    interceptor_classification [of "\<lparr>code = Some ''ERR_BAD_RESPONSE'',
        message = ''Request failed with status code 503'',
        response = Some \<lparr>status = 503, data = JObj [(''error'', JStr ''down'')]\<rparr>\<rparr>"]
    interceptor_classification [of "\<lparr>code = Some ''ERR_BAD_REQUEST'',
        message = ''Request failed with status code 404'',
        response = Some \<lparr>status = 404, data = JObj [(''error'', JStr ''no such video'')]\<rparr>\<rparr>"]
  by (simp add: response_status_def)

section \<open>uploadVideo\<close>

text \<open>
  C7. When the upload fails with the error \<open>e\<close>: the code \<^verbatim>\<open>ERR_NETWORK\<close> makes
  \<^verbatim>\<open>uploadVideo\<close> throw exactly the network message; otherwise a response with the
  status 413 makes it throw exactly the file-too-large message; any other error is
  thrown again as it is, with its status and body. The three cases are tried in this
  order, as the claim lists them.
\<close>

theorem upload_failure:
  assumes "axios_post \<lparr>cr_url = base @ ''/upload'', cr_method = ''post'', cr_data = formData\<rparr>
             = Inl e"
  shows "(code e = Some ''ERR_NETWORK'' \<longrightarrow>
            uploadVideo base axios_post formData
              = Inl (new_Error ''Network error. Cannot connect to server.''))
       \<and> (code e \<noteq> Some ''ERR_NETWORK'' \<and> response_status e = Some 413 \<longrightarrow>
            uploadVideo base axios_post formData
              = Inl (new_Error ''File too large. Please use a smaller video file.''))
       \<and> (code e \<noteq> Some ''ERR_NETWORK'' \<and> response_status e \<noteq> Some 413 \<longrightarrow>
            uploadVideo base axios_post formData = Inl e)"
  using assms
  by (simp add: uploadVideo_def uploadVideo_catch_def msg_upload_network_def
      msg_upload_too_large_def)

text \<open>A network failure, a 413 and a 400 with a body.\<close>

theorem upload_failure_witness:
  "uploadVideo BACKEND_URL_default
     (\<lambda>rq. Inl \<lparr>code = Some ''ERR_NETWORK'', message = ''Network Error'', response = None\<rparr>)
     (JObj [])
     = Inl (new_Error ''Network error. Cannot connect to server.'')
   \<and> uploadVideo BACKEND_URL_default
     (\<lambda>rq. Inl \<lparr>code = Some ''ERR_BAD_REQUEST'',
                message = ''Request failed with status code 413'',
                response = Some \<lparr>status = 413, data = JStr ''too large''\<rparr>\<rparr>)
     (JObj [])
     = Inl (new_Error ''File too large. Please use a smaller video file.'')
   \<and> uploadVideo BACKEND_URL_default
     (\<lambda>rq. Inl \<lparr>code = Some ''ERR_BAD_REQUEST'',
                message = ''Request failed with status code 400'',
                response = Some \<lparr>status = 400, data = JObj [(''error'', JStr ''no file'')]\<rparr>\<rparr>)
     (JObj [])
     = Inl \<lparr>code = Some ''ERR_BAD_REQUEST'',
            message = ''Request failed with status code 400'',
            response = Some \<lparr>status = 400, data = JObj [(''error'', JStr ''no file'')]\<rparr>\<rparr>"
  using
    upload_failure [where base = BACKEND_URL_default and formData = "JObj []"
      and axios_post = "\<lambda>rq. Inl \<lparr>code = Some ''ERR_NETWORK'', message = ''Network Error'',
                                   response = None\<rparr>"
      and e = "\<lparr>code = Some ''ERR_NETWORK'', message = ''Network Error'', response = None\<rparr>"]
    upload_failure [where base = BACKEND_URL_default and formData = "JObj []"
      and axios_post = "\<lambda>rq. Inl \<lparr>code = Some ''ERR_BAD_REQUEST'',
                message = ''Request failed with status code 413'',
                response = Some \<lparr>status = 413, data = JStr ''too large''\<rparr>\<rparr>"
      and e = "\<lparr>code = Some ''ERR_BAD_REQUEST'',
                message = ''Request failed with status code 413'',
                response = Some \<lparr>status = 413, data = JStr ''too large''\<rparr>\<rparr>"]
    upload_failure [where base = BACKEND_URL_default and formData = "JObj []"
      and axios_post = "\<lambda>rq. Inl \<lparr>code = Some ''ERR_BAD_REQUEST'',
                message = ''Request failed with status code 400'',
                response = Some \<lparr>status = 400, data = JObj [(''error'', JStr ''no file'')]\<rparr>\<rparr>"
      and e = "\<lparr>code = Some ''ERR_BAD_REQUEST'',
                message = ''Request failed with status code 400'',
                response = Some \<lparr>status = 400, data = JObj [(''error'', JStr ''no file'')]\<rparr>\<rparr>"]
  by (simp add: response_status_def)

text \<open>
  C10. The upload does not go through the shared instance. When it fails with a response
  of status 0, 408, or 500 and more, \<^verbatim>\<open>uploadVideo\<close> never throws the CORS, timeout or
  server-error message of the interceptor, and it throws the error again as it is, with
  its status and body, unless the error has the code \<^verbatim>\<open>ERR_NETWORK\<close>, which is the
  upload's own first case (C7) and which the HTTP client sets only on errors without a
  response. The same error on a call through the instance is replaced.
\<close>

theorem upload_not_intercepted:
  assumes "axios_post \<lparr>cr_url = base @ ''/upload'', cr_method = ''post'', cr_data = formData\<rparr>
             = Inl e"
    and "response e = Some r"
    and "status r = 0 \<or> status r = 408 \<or> status r \<ge> 500"
  shows "(code e \<noteq> Some ''ERR_NETWORK'' \<longrightarrow> uploadVideo base axios_post formData = Inl e)
       \<and> uploadVideo base axios_post formData \<noteq> Inl (new_Error msg_cors)
       \<and> uploadVideo base axios_post formData \<noteq> Inl (new_Error msg_timeout)
       \<and> uploadVideo base axios_post formData \<noteq> Inl (new_Error msg_server)
       \<and> api_call (Inl e) \<noteq> Inl e"
proof -
  have thrown: "uploadVideo base axios_post formData = Inl (uploadVideo_catch e)"
    using assms(1) by (simp add: uploadVideo_def)
  have two: "uploadVideo_catch e = e \<or> uploadVideo_catch e = new_Error msg_upload_network"
    using assms(2,3) by (auto simp: uploadVideo_catch_def response_status_def)
  have not_plain: "e \<noteq> new_Error m" for m
    using assms(2) by (auto simp: new_Error_def)
  have other_text: "new_Error msg_upload_network \<noteq> new_Error m"
    if "m \<in> {msg_cors, msg_timeout, msg_server}" for m
    using that
    by (auto simp: new_Error_def msg_upload_network_def msg_cors_def msg_timeout_def
        msg_server_def)
  have replaced: "response_rejected e \<noteq> e"
    using assms(2,3) not_plain by (auto simp: response_rejected_def response_status_def)
  show ?thesis
    using thrown two not_plain other_text replaced assms(2,3)
    by (auto simp: api_call_def uploadVideo_catch_def response_status_def)
qed

text \<open>A 503 with a body: the upload throws it unchanged, the instance would not.\<close>

theorem upload_not_intercepted_witness:
  "uploadVideo BACKEND_URL_default
     (\<lambda>rq. Inl \<lparr>code = Some ''ERR_BAD_RESPONSE'',
                message = ''Request failed with status code 503'',
                response = Some \<lparr>status = 503, data = JObj [(''error'', JStr ''down'')]\<rparr>\<rparr>)
     (JObj [])
     = Inl \<lparr>code = Some ''ERR_BAD_RESPONSE'',
            message = ''Request failed with status code 503'',
            response = Some \<lparr>status = 503, data = JObj [(''error'', JStr ''down'')]\<rparr>\<rparr>
   \<and> api_call (Inl \<lparr>code = Some ''ERR_BAD_RESPONSE'',
            message = ''Request failed with status code 503'',
            response = Some \<lparr>status = 503, data = JObj [(''error'', JStr ''down'')]\<rparr>\<rparr>)
     \<noteq> Inl \<lparr>code = Some ''ERR_BAD_RESPONSE'',
            message = ''Request failed with status code 503'',
            response = Some \<lparr>status = 503, data = JObj [(''error'', JStr ''down'')]\<rparr>\<rparr>"
  using
    upload_not_intercepted [where base = BACKEND_URL_default and formData = "JObj []"
      and axios_post = "\<lambda>rq. Inl \<lparr>code = Some ''ERR_BAD_RESPONSE'',
                message = ''Request failed with status code 503'',
                response = Some \<lparr>status = 503, data = JObj [(''error'', JStr ''down'')]\<rparr>\<rparr>"
      and e = "\<lparr>code = Some ''ERR_BAD_RESPONSE'',
                message = ''Request failed with status code 503'',
                response = Some \<lparr>status = 503, data = JObj [(''error'', JStr ''down'')]\<rparr>\<rparr>"
      and r = "\<lparr>status = 503, data = JObj [(''error'', JStr ''down'')]\<rparr>"]
  by simp

section \<open>transcribeVideo\<close>

text \<open>
  C3, as the code has it. Let \<open>e\<close> be the error with which the call through the instance
  is rejected. If its message contains \<^verbatim>\<open>timeout\<close>, \<^verbatim>\<open>transcribeVideo\<close> throws exactly
  the transcription-timeout message. Otherwise, if the \<^verbatim>\<open>error\<close> field of the response
  body is truthy and has a string conversion, it throws an error whose message is that
  conversion: a non-empty string is thrown verbatim. Otherwise, if there is no response,
  no such field, or a falsy one such as the empty string, it throws exactly the generic
  message.
\<close>

theorem transcribe_failure:
  assumes "api_call (send \<lparr>cr_url = ''/transcribe-direct-video'', cr_method = ''post'',
                            cr_data = JObj [(''videoId'', videoId)]\<rparr>) = Inl e"
  shows "(str_includes (message e) ''timeout'' \<longrightarrow>
            transcribeVideo eng send videoId
              = Inl (new_Error ''Transcription timed out. Please try with a shorter video.''))
       \<and> (\<forall>text. \<not> str_includes (message e) ''timeout'' \<and> truthy (response_data_error e)
                 \<and> ToString eng (response_data_error e) = Inr text \<longrightarrow>
            transcribeVideo eng send videoId = Inl (new_Error text))
       \<and> (\<forall>s. \<not> str_includes (message e) ''timeout'' \<and> response_data_error e = JStr s \<and> s \<noteq> []
             \<longrightarrow> transcribeVideo eng send videoId = Inl (new_Error s))
       \<and> (\<not> str_includes (message e) ''timeout'' \<and> \<not> truthy (response_data_error e) \<longrightarrow>
            transcribeVideo eng send videoId
              = Inl (new_Error ''Transcription failed. Please try again.''))"
  using assms
  by (auto simp: transcribeVideo_def transcribeVideo_catch_def msg_transcribe_timeout_def
      msg_transcribe_failed_def)

text \<open>
  A timeout that the interceptor lets through, a 400 with the body
  \<^verbatim>\<open>{error: "bad video"}\<close>, a 422 whose \<^verbatim>\<open>error\<close> field is an object, and a 404 with
  an empty object.
\<close>

theorem transcribe_failure_witness:
  "transcribeVideo 
       \<lparr>number_text = (\<lambda>n. ''0''), conversion_TypeError = new_Error ''no primitive value''\<rparr>
     (\<lambda>rq. Inl \<lparr>code = Some ''ETIMEDOUT'', message = ''timeout of 30000ms exceeded'',
                response = None\<rparr>)
     (JStr ''abc'')
     = Inl (new_Error ''Transcription timed out. Please try with a shorter video.'')
   \<and> transcribeVideo 
       \<lparr>number_text = (\<lambda>n. ''0''), conversion_TypeError = new_Error ''no primitive value''\<rparr>
     (\<lambda>rq. Inl \<lparr>code = Some ''ERR_BAD_REQUEST'',
                message = ''Request failed with status code 400'',
                response = Some \<lparr>status = 400, data = JObj [(''error'', JStr ''bad video'')]\<rparr>\<rparr>)
     (JStr ''abc'')
     = Inl (new_Error ''bad video'')
   \<and> transcribeVideo 
       \<lparr>number_text = (\<lambda>n. ''0''), conversion_TypeError = new_Error ''no primitive value''\<rparr>
     (\<lambda>rq. Inl \<lparr>code = Some ''ERR_BAD_REQUEST'',
                message = ''Request failed with status code 422'',
                response = Some \<lparr>status = 422,
                  data = JObj [(''error'', JObj [(''field'', JStr ''videoId'')])]\<rparr>\<rparr>)
     (JStr ''abc'')
     = Inl (new_Error ''[object Object]'')
   \<and> transcribeVideo 
       \<lparr>number_text = (\<lambda>n. ''0''), conversion_TypeError = new_Error ''no primitive value''\<rparr>
     (\<lambda>rq. Inl \<lparr>code = Some ''ERR_BAD_REQUEST'',
                message = ''Request failed with status code 404'',
                response = Some \<lparr>status = 404, data = JObj []\<rparr>\<rparr>)
     (JStr ''abc'')
     = Inl (new_Error ''Transcription failed. Please try again.'')"
  using
    transcribe_failure [where eng = "\<lparr>number_text = (\<lambda>n. ''0''), conversion_TypeError = new_Error ''no primitive value''\<rparr>" and videoId = "JStr ''abc''"
      and send = "\<lambda>rq. Inl \<lparr>code = Some ''ETIMEDOUT'',
                message = ''timeout of 30000ms exceeded'', response = None\<rparr>"
      and e = "\<lparr>code = Some ''ETIMEDOUT'', message = ''timeout of 30000ms exceeded'',
                response = None\<rparr>"]
    transcribe_failure [where eng = "\<lparr>number_text = (\<lambda>n. ''0''), conversion_TypeError = new_Error ''no primitive value''\<rparr>" and videoId = "JStr ''abc''"
      and send = "\<lambda>rq. Inl \<lparr>code = Some ''ERR_BAD_REQUEST'',
                message = ''Request failed with status code 400'',
                response = Some \<lparr>status = 400, data = JObj [(''error'', JStr ''bad video'')]\<rparr>\<rparr>"
      and e = "\<lparr>code = Some ''ERR_BAD_REQUEST'',
                message = ''Request failed with status code 400'',
                response = Some \<lparr>status = 400, data = JObj [(''error'', JStr ''bad video'')]\<rparr>\<rparr>"]
    transcribe_failure [where eng = "\<lparr>number_text = (\<lambda>n. ''0''), conversion_TypeError = new_Error ''no primitive value''\<rparr>" and videoId = "JStr ''abc''"
      and send = "\<lambda>rq. Inl \<lparr>code = Some ''ERR_BAD_REQUEST'',
                message = ''Request failed with status code 422'',
                response = Some \<lparr>status = 422,
                  data = JObj [(''error'', JObj [(''field'', JStr ''videoId'')])]\<rparr>\<rparr>"
      and e = "\<lparr>code = Some ''ERR_BAD_REQUEST'',
                message = ''Request failed with status code 422'',
                response = Some \<lparr>status = 422,
                  data = JObj [(''error'', JObj [(''field'', JStr ''videoId'')])]\<rparr>\<rparr>"]
    transcribe_failure [where eng = "\<lparr>number_text = (\<lambda>n. ''0''), conversion_TypeError = new_Error ''no primitive value''\<rparr>" and videoId = "JStr ''abc''"
      and send = "\<lambda>rq. Inl \<lparr>code = Some ''ERR_BAD_REQUEST'',
                message = ''Request failed with status code 404'',
                response = Some \<lparr>status = 404, data = JObj []\<rparr>\<rparr>"
      and e = "\<lparr>code = Some ''ERR_BAD_REQUEST'',
                message = ''Request failed with status code 404'',
                response = Some \<lparr>status = 404, data = JObj []\<rparr>\<rparr>"]
  by (simp add: api_call_def response_rejected_def response_status_def
      response_data_error_def)

text \<open>
  C3 as stated fails where the body has an \<^verbatim>\<open>error\<close> field that is falsy: for a 400
  with the body \<^verbatim>\<open>{error: ""}\<close> the message thrown is the generic one, not the value of
  the field.
\<close>

theorem transcribe_failure_counterexample:
  "transcribeVideo 
       \<lparr>number_text = (\<lambda>n. ''0''), conversion_TypeError = new_Error ''no primitive value''\<rparr>
     (\<lambda>rq. Inl \<lparr>code = Some ''ERR_BAD_REQUEST'',
                message = ''Request failed with status code 400'',
                response = Some \<lparr>status = 400, data = JObj [(''error'', JStr [])]\<rparr>\<rparr>)
     (JStr ''abc'')
     = Inl (new_Error ''Transcription failed. Please try again.'')
   \<and> transcribeVideo 
       \<lparr>number_text = (\<lambda>n. ''0''), conversion_TypeError = new_Error ''no primitive value''\<rparr>
     (\<lambda>rq. Inl \<lparr>code = Some ''ERR_BAD_REQUEST'',
                message = ''Request failed with status code 400'',
                response = Some \<lparr>status = 400, data = JObj [(''error'', JStr [])]\<rparr>\<rparr>)
     (JStr ''abc'')
     \<noteq> Inl (new_Error [])"
  by (simp add: transcribeVideo_def api_call_def response_rejected_def response_status_def
      transcribeVideo_catch_def response_data_error_def msg_transcribe_failed_def new_Error_def)

text \<open>
  C9. When the backend answers the transcription call with a status of 500 or more,
  whatever the body and its \<^verbatim>\<open>error\<close> field, \<^verbatim>\<open>transcribeVideo\<close> throws exactly the
  generic message: the interceptor has replaced the failure by a plain error that has no
  response, so the \<^verbatim>\<open>catch\<close> block finds no body.
\<close>

theorem transcribe_server_error_generic:
  assumes "send \<lparr>cr_url = ''/transcribe-direct-video'', cr_method = ''post'',
                  cr_data = JObj [(''videoId'', videoId)]\<rparr> = Inl e"
    and "response e = Some r" and "status r \<ge> 500"
  shows "transcribeVideo eng send videoId
           = Inl (new_Error ''Transcription failed. Please try again.'')
         \<and> response (response_rejected e) = None"
proof -
  have "\<exists>m \<in> {msg_cannot_connect, msg_cors, msg_timeout, msg_server}.
          response_rejected e = new_Error m"
    using assms(2,3) by (auto simp: response_rejected_def response_status_def)
  then obtain m where m: "m \<in> {msg_cannot_connect, msg_cors, msg_timeout, msg_server}"
    and r: "response_rejected e = new_Error m" by blast
  have "transcribeVideo eng send videoId = Inl (new_Error msg_transcribe_failed)"
    using assms(1) r transcribe_after_remap [OF m, of eng]
    by (simp add: transcribeVideo_def api_call_def)
  then show ?thesis using r by (simp add: msg_transcribe_failed_def)
qed

text \<open>A 500 with the body \<^verbatim>\<open>{error: "bad video"}\<close>.\<close>

theorem transcribe_server_error_generic_witness:
  "transcribeVideo
       \<lparr>number_text = (\<lambda>n. ''0''), conversion_TypeError = new_Error ''no primitive value''\<rparr>
     (\<lambda>rq. Inl \<lparr>code = Some ''ERR_BAD_RESPONSE'',
                message = ''Request failed with status code 500'',
                response = Some \<lparr>status = 500, data = JObj [(''error'', JStr ''bad video'')]\<rparr>\<rparr>)
     (JStr ''abc'')
     = Inl (new_Error ''Transcription failed. Please try again.'')"
  using
    transcribe_server_error_generic [where eng = "\<lparr>number_text = (\<lambda>n. ''0''), conversion_TypeError = new_Error ''no primitive value''\<rparr>"
      and videoId = "JStr ''abc''"
      and send = "\<lambda>rq. Inl \<lparr>code = Some ''ERR_BAD_RESPONSE'',
                message = ''Request failed with status code 500'',
                response = Some \<lparr>status = 500, data = JObj [(''error'', JStr ''bad video'')]\<rparr>\<rparr>"
      and e = "\<lparr>code = Some ''ERR_BAD_RESPONSE'',
                message = ''Request failed with status code 500'',
                response = Some \<lparr>status = 500, data = JObj [(''error'', JStr ''bad video'')]\<rparr>\<rparr>"
      and r = "\<lparr>status = 500, data = JObj [(''error'', JStr ''bad video'')]\<rparr>"]
  by simp

section \<open>renderVideo\<close>

text \<open>
  C2, as the code has it. The payload of the render call carries
  \<^verbatim>\<open>transitionDuration: 0.5\<close> when the options are left out or have no such property,
  and it carries the caller's value exactly when that value is truthy (a number other
  than zero and NaN, for one).
\<close>

theorem renderVideo_transitionDuration:
  "(options = None \<or> (\<exists>ps. options = Some ps \<and> map_of ps ''transitionDuration'' = None) \<longrightarrow>
      opt_prop (cr_data (renderVideo_request videoId scenes options)) ''transitionDuration''
        = JNum (Finite (1 / 2)))
   \<and> (\<forall>ps v. options = Some ps \<and> map_of ps ''transitionDuration'' = Some v \<and> truthy v \<longrightarrow>
      opt_prop (cr_data (renderVideo_request videoId scenes options)) ''transitionDuration'' = v)"
  by (auto simp: renderVideo_request_def js_or_def)

text \<open>No options, empty options, and a duration of two seconds.\<close>

theorem renderVideo_transitionDuration_witness:
  "opt_prop (cr_data (renderVideo_request (JStr ''v1'') (JArr []) None)) ''transitionDuration''
     = JNum (Finite (1 / 2))
   \<and> opt_prop (cr_data (renderVideo_request (JStr ''v1'') (JArr []) (Some [])))
       ''transitionDuration'' = JNum (Finite (1 / 2))
   \<and> opt_prop (cr_data (renderVideo_request (JStr ''v1'') (JArr [])
       (Some [(''transitionDuration'', JNum (Finite 2))]))) ''transitionDuration''
     = JNum (Finite 2)"
  using renderVideo_transitionDuration [of None "JStr ''v1''" "JArr []"]
    renderVideo_transitionDuration [of "Some []" "JStr ''v1''" "JArr []"]
    renderVideo_transitionDuration [of "Some [(''transitionDuration'', JNum (Finite 2))]"
      "JStr ''v1''" "JArr []"]
  by simp

text \<open>
  C2 as stated fails for a caller who supplies a falsy value: with
  \<^verbatim>\<open>{transitionDuration: 0}\<close> the payload carries 0.5, not 0.
\<close>

theorem renderVideo_transitionDuration_counterexample:
  "opt_prop (cr_data (renderVideo_request (JStr ''v1'') (JArr [])
       (Some [(''transitionDuration'', JNum (Finite 0))]))) ''transitionDuration''
     = JNum (Finite (1 / 2))
   \<and> opt_prop (cr_data (renderVideo_request (JStr ''v1'') (JArr [])
       (Some [(''transitionDuration'', JNum (Finite 0))]))) ''transitionDuration''
     \<noteq> JNum (Finite 0)"
  by (simp add: renderVideo_request_def js_or_def)

section \<open>The forwarding handler: replies\<close>

text \<open>
  C4. The handler always ends with a reply; no exception leaves it. When an exception
  \<open>e\<close> is thrown inside the \<^verbatim>\<open>try\<close> block, by the outbound call or by the JSON parsing
  of its response, the reply has the status 500 and the body
  \<^verbatim>\<open>{error: 'Backend connection failed', details: e.message}\<close>.
\<close>

theorem handler_never_throws:
  "(\<exists>reply. snd (handler rt req) = Inr reply)
   \<and> (\<forall>e. snd (handler_try rt req (proxy_path (query_proxy req))) = Inl e \<longrightarrow>
        snd (handler rt req)
          = Inr \<lparr>reply_status = 500,
                 reply_body = JObj [(''error'', JStr ''Backend connection failed''),
                                    (''details'', JStr (message e))]\<rparr>)
   \<and> (\<forall>e. fetch rt (backendUrl (proxy_path (query_proxy req))) (fetchOptions rt req) = Inl e \<longrightarrow>
        snd (handler rt req)
          = Inr \<lparr>reply_status = 500,
                 reply_body = JObj [(''error'', JStr ''Backend connection failed''),
                                    (''details'', JStr (message e))]\<rparr>)
   \<and> (\<forall>resp e. fetch rt (backendUrl (proxy_path (query_proxy req))) (fetchOptions rt req)
                  = Inr resp \<and> fr_json resp = Inl e \<longrightarrow>
        snd (handler rt req)
          = Inr \<lparr>reply_status = 500,
                 reply_body = JObj [(''error'', JStr ''Backend connection failed''),
                                    (''details'', JStr (message e))]\<rparr>)"
proof (intro conjI allI impI)
  show "\<exists>reply. snd (handler rt req) = Inr reply"
    by (simp add: handler_reply split: sum.splits)
next
  fix e assume "snd (handler_try rt req (proxy_path (query_proxy req))) = Inl e"
  then show "snd (handler rt req)
          = Inr \<lparr>reply_status = 500,
                 reply_body = JObj [(''error'', JStr ''Backend connection failed''),
                                    (''details'', JStr (message e))]\<rparr>"
    by (auto simp: handler_def handler_catch_def Let_def split: prod.splits)
next
  fix e
  assume "fetch rt (backendUrl (proxy_path (query_proxy req))) (fetchOptions rt req) = Inl e"
  then show "snd (handler rt req)
          = Inr \<lparr>reply_status = 500,
                 reply_body = JObj [(''error'', JStr ''Backend connection failed''),
                                    (''details'', JStr (message e))]\<rparr>"
    by (simp add: handler_reply handler_catch_def)
next
  fix resp e
  assume "fetch rt (backendUrl (proxy_path (query_proxy req))) (fetchOptions rt req)
                  = Inr resp \<and> fr_json resp = Inl e"
  then show "snd (handler rt req)
          = Inr \<lparr>reply_status = 500,
                 reply_body = JObj [(''error'', JStr ''Backend connection failed''),
                                    (''details'', JStr (message e))]\<rparr>"
    by (simp add: handler_reply handler_catch_def)
qed

text \<open>An outbound call that throws, and a response whose body is not JSON.\<close>

theorem handler_never_throws_witness:
  "snd (handler \<lparr>JSON_stringify = (\<lambda>v. JStr ''[]''),
                 fetch = (\<lambda>u opts. Inl (new_Error ''fetch failed''))\<rparr>
         \<lparr>query_proxy = Segments [''a'', ''b''], in_method = ''GET'', in_headers = [],
          in_body = JUndefined\<rparr>)
     = Inr \<lparr>reply_status = 500,
            reply_body = JObj [(''error'', JStr ''Backend connection failed''),
                               (''details'', JStr ''fetch failed'')]\<rparr>
   \<and> snd (handler \<lparr>JSON_stringify = (\<lambda>v. JStr ''[]''),
                 fetch = (\<lambda>u opts. Inr \<lparr>fr_status = 200,
                            fr_json = Inl (new_Error ''Unexpected token in JSON'')\<rparr>)\<rparr>
         \<lparr>query_proxy = Single ''health'', in_method = ''POST'', in_headers = [],
          in_body = JArr []\<rparr>)
     = Inr \<lparr>reply_status = 500,
            reply_body = JObj [(''error'', JStr ''Backend connection failed''),
                               (''details'', JStr ''Unexpected token in JSON'')]\<rparr>"
  using
    handler_never_throws [of
      "\<lparr>JSON_stringify = (\<lambda>v. JStr ''[]''),
        fetch = (\<lambda>u opts. Inl (new_Error ''fetch failed''))\<rparr>"
      "\<lparr>query_proxy = Segments [''a'', ''b''], in_method = ''GET'', in_headers = [],
        in_body = JUndefined\<rparr>"]
    handler_never_throws [of
      "\<lparr>JSON_stringify = (\<lambda>v. JStr ''[]''),
        fetch = (\<lambda>u opts. Inr \<lparr>fr_status = 200,
                   fr_json = Inl (new_Error ''Unexpected token in JSON'')\<rparr>)\<rparr>"
      "\<lparr>query_proxy = Single ''health'', in_method = ''POST'', in_headers = [],
        in_body = JArr []\<rparr>"]
  by simp

section \<open>The forwarding handler: the outbound call\<close>

text \<open>
  C5. For a request whose path parameter is a sequence of segments and whose method is
  GET, the handler makes exactly one outbound call: a GET to the backend origin followed
  by \<^verbatim>\<open>/\<close> and the segments joined by \<^verbatim>\<open>/\<close>, with the one header and no body. When
  that call yields a response whose body parses as JSON, the reply carries the status
  and the parsed body of the response.
\<close>

theorem handler_get_segments:
  assumes "query_proxy req = Segments segs" and "in_method req = ''GET''"
  shows "fst (handler rt req)
           = [(backend_origin @ ''/'' @ join ''/'' segs,
               \<lparr>fo_method = ''GET'',
                fo_headers = [(''Content-Type'', ''application/json'')],
                fo_body = None\<rparr>)]
       \<and> (\<forall>resp d.
            fetch rt (backend_origin @ ''/'' @ join ''/'' segs)
              \<lparr>fo_method = ''GET'',
               fo_headers = [(''Content-Type'', ''application/json'')],
               fo_body = None\<rparr> = Inr resp
            \<and> fr_json resp = Inr d \<longrightarrow>
            snd (handler rt req) = Inr \<lparr>reply_status = fr_status resp, reply_body = d\<rparr>)"
  using assms
  by (simp add: handler_calls handler_reply backendUrl_def fetchOptions_def)

text \<open>
  The segments \<^verbatim>\<open>['a','b']\<close>, against a backend that answers only the expected call.
\<close>

theorem handler_get_segments_witness:
  "handler
     \<lparr>JSON_stringify = (\<lambda>v. JStr ''[]''),
      fetch = (\<lambda>u opts.
        if u = ''http://footage-flow-env.eba-92jebm7b.ap-south-1.elasticbeanstalk.com/a/b''
           \<and> fo_method opts = ''GET'' \<and> fo_body opts = None
        then Inr \<lparr>fr_status = 201, fr_json = Inr (JObj [(''ok'', JBool True)])\<rparr>
        else Inl (new_Error ''unexpected call''))\<rparr>
     \<lparr>query_proxy = Segments [''a'', ''b''], in_method = ''GET'',
      in_headers = [(''Authorization'', ''Bearer t'')], in_body = JUndefined\<rparr>
   = ([(''http://footage-flow-env.eba-92jebm7b.ap-south-1.elasticbeanstalk.com/a/b'',
        \<lparr>fo_method = ''GET'',
         fo_headers = [(''Content-Type'', ''application/json'')],
         fo_body = None\<rparr>)],
      Inr \<lparr>reply_status = 201, reply_body = JObj [(''ok'', JBool True)]\<rparr>)"
  using
    handler_get_segments [where segs = "[''a'', ''b'']"
      and rt = "\<lparr>JSON_stringify = (\<lambda>v. JStr ''[]''),
        fetch = (\<lambda>u opts.
          if u = ''http://footage-flow-env.eba-92jebm7b.ap-south-1.elasticbeanstalk.com/a/b''
             \<and> fo_method opts = ''GET'' \<and> fo_body opts = None
          then Inr \<lparr>fr_status = 201, fr_json = Inr (JObj [(''ok'', JBool True)])\<rparr>
          else Inl (new_Error ''unexpected call''))\<rparr>"
      and req = "\<lparr>query_proxy = Segments [''a'', ''b''], in_method = ''GET'',
        in_headers = [(''Authorization'', ''Bearer t'')], in_body = JUndefined\<rparr>"]
  by (simp add: backend_origin_def prod_eq_iff)

text \<open>
  C6, as the code has it. When the path parameter is absent, the target address is the
  backend origin followed by \<^verbatim>\<open>/undefined\<close>, the text that the template literal gives
  for the absent value. The origin followed by \<^verbatim>\<open>/\<close> and nothing else is the address
  for an empty sequence of segments.
\<close>

theorem handler_missing_path:
  "(query_proxy req = Missing \<longrightarrow>
      map fst (fst (handler rt req)) = [backend_origin @ ''/undefined''])
   \<and> (query_proxy req = Segments [] \<longrightarrow>
      map fst (fst (handler rt req)) = [backend_origin @ ''/''])"
  by (simp add: handler_calls backendUrl_def)

theorem handler_missing_path_witness:
  "map fst (fst (handler
     \<lparr>JSON_stringify = (\<lambda>v. JStr ''[]''),
      fetch = (\<lambda>u opts. Inl (new_Error ''fetch failed''))\<rparr>
     \<lparr>query_proxy = Missing, in_method = ''GET'', in_headers = [], in_body = JUndefined\<rparr>))
   = [''http://footage-flow-env.eba-92jebm7b.ap-south-1.elasticbeanstalk.com/undefined'']
   \<and> map fst (fst (handler
     \<lparr>JSON_stringify = (\<lambda>v. JStr ''[]''),
      fetch = (\<lambda>u opts. Inl (new_Error ''fetch failed''))\<rparr>
     \<lparr>query_proxy = Segments [], in_method = ''GET'', in_headers = [], in_body = JUndefined\<rparr>))
   = [''http://footage-flow-env.eba-92jebm7b.ap-south-1.elasticbeanstalk.com/'']"
  using
    handler_missing_path [of
      "\<lparr>query_proxy = Missing, in_method = ''GET'', in_headers = [], in_body = JUndefined\<rparr>"
      "\<lparr>JSON_stringify = (\<lambda>v. JStr ''[]''),
        fetch = (\<lambda>u opts. Inl (new_Error ''fetch failed''))\<rparr>"]
    handler_missing_path [of
      "\<lparr>query_proxy = Segments [], in_method = ''GET'', in_headers = [], in_body = JUndefined\<rparr>"
      "\<lparr>JSON_stringify = (\<lambda>v. JStr ''[]''),
        fetch = (\<lambda>u opts. Inl (new_Error ''fetch failed''))\<rparr>"]
  by (simp add: backend_origin_def)

text \<open>
  C6 as stated fails: for an absent path parameter the address built ends in
  \<^verbatim>\<open>/undefined\<close>, it is not the origin followed by an empty segment.
\<close>

theorem handler_missing_path_counterexample:
  "backendUrl (proxy_path Missing)
     = ''http://footage-flow-env.eba-92jebm7b.ap-south-1.elasticbeanstalk.com/undefined''
   \<and> backendUrl (proxy_path Missing)
     \<noteq> ''http://footage-flow-env.eba-92jebm7b.ap-south-1.elasticbeanstalk.com/''"
  by (simp add: backendUrl_def backend_origin_def)

text \<open>
  C8. For a method other than GET and HEAD the outbound call carries the JSON text of
  the inbound body as its body; for GET and HEAD it carries no body. In every case the
  outbound headers are the single header \<^verbatim>\<open>Content-Type: application/json\<close>, and the
  inbound headers have no influence on the outbound call or on the reply.
\<close>

theorem handler_body_and_headers:
  "(in_method req \<noteq> ''GET'' \<and> in_method req \<noteq> ''HEAD'' \<longrightarrow>
      map (fo_body \<circ> snd) (fst (handler rt req)) = [Some (JSON_stringify rt (in_body req))])
   \<and> (in_method req = ''GET'' \<or> in_method req = ''HEAD'' \<longrightarrow>
      map (fo_body \<circ> snd) (fst (handler rt req)) = [None])
   \<and> map (fo_headers \<circ> snd) (fst (handler rt req))
       = [[(''Content-Type'', ''application/json'')]]
   \<and> (\<forall>hs. handler rt (req\<lparr>in_headers := hs\<rparr>) = handler rt req)"
  by (auto simp: handler_calls fetchOptions_def Let_def handler_def handler_try_def)

text \<open>A POST with a body and an authentication header, and a HEAD.\<close>

theorem handler_body_and_headers_witness:
  "map (fo_body \<circ> snd) (fst (handler
     \<lparr>JSON_stringify = (\<lambda>v. if v = JArr [] then JStr ''[]'' else JUndefined),
      fetch = (\<lambda>u opts. Inl (new_Error ''fetch failed''))\<rparr>
     \<lparr>query_proxy = Single ''search'', in_method = ''POST'',
      in_headers = [(''Authorization'', ''Bearer t'')], in_body = JArr []\<rparr>))
   = [Some (JStr ''[]'')]
   \<and> map (fo_headers \<circ> snd) (fst (handler
     \<lparr>JSON_stringify = (\<lambda>v. if v = JArr [] then JStr ''[]'' else JUndefined),
      fetch = (\<lambda>u opts. Inl (new_Error ''fetch failed''))\<rparr>
     \<lparr>query_proxy = Single ''search'', in_method = ''POST'',
      in_headers = [(''Authorization'', ''Bearer t'')], in_body = JArr []\<rparr>))
   = [[(''Content-Type'', ''application/json'')]]
   \<and> map (fo_body \<circ> snd) (fst (handler
     \<lparr>JSON_stringify = (\<lambda>v. if v = JArr [] then JStr ''[]'' else JUndefined),
      fetch = (\<lambda>u opts. Inl (new_Error ''fetch failed''))\<rparr>
     \<lparr>query_proxy = Single ''health'', in_method = ''HEAD'',
      in_headers = [], in_body = JArr []\<rparr>))
   = [None]"
  using
    handler_body_and_headers [of
      "\<lparr>query_proxy = Single ''search'', in_method = ''POST'',
        in_headers = [(''Authorization'', ''Bearer t'')], in_body = JArr []\<rparr>"
      "\<lparr>JSON_stringify = (\<lambda>v. if v = JArr [] then JStr ''[]'' else JUndefined),
        fetch = (\<lambda>u opts. Inl (new_Error ''fetch failed''))\<rparr>"]
    handler_body_and_headers [of
      "\<lparr>query_proxy = Single ''health'', in_method = ''HEAD'',
        in_headers = [], in_body = JArr []\<rparr>"
      "\<lparr>JSON_stringify = (\<lambda>v. if v = JArr [] then JStr ''[]'' else JUndefined),
        fetch = (\<lambda>u opts. Inl (new_Error ''fetch failed''))\<rparr>"]
  by simp

end
